theory Spec2Isabelle
  imports Complex_Main "HOL-Library.AList"
begin

section \<open>Runtime values and errors\<close>

text \<open>
  A message is a JavaScript value at run time: the codec validates data that comes out of
  \<open>JSON.parse\<close>, so its input is any value, not only a well-typed envelope. Numbers are
  integers (the envelope's ids and error codes), objects are property lists in insertion
  order.
\<close>

datatype jsval =
    JUndefined
  | JNull
  | JBool bool
  | JNum int
  | JStr string
  | JArr "jsval list"
  | JObj "(string \<times> jsval) list"

text \<open>An envelope id is a string or a number (\<open>id?: string | number\<close>).\<close>

datatype msg_id = IdStr string | IdNum int

text \<open>
  Every \<open>throw new Error(...)\<close> of the sources is one constructor; the text of the message
  is given beside it.
\<close>

datatype error =
    SerializeFailed string
      \<comment> \<open>\<open>Failed to serialize message: <cause>\<close>\<close>
  | DeserializeFailed string
      \<comment> \<open>\<open>Failed to deserialize message: <cause>\<close>\<close>
  | OtherError string
      \<comment> \<open>an error raised by a collaborator (a callback, the platform), with its message\<close>
  | MissingId
      \<comment> \<open>\<open>Message must have an ID for correlation tracking\<close>\<close>
  | AlreadyTracked msg_id
      \<comment> \<open>\<open>Request with ID <id> is already being tracked\<close>\<close>
  | ResponseError string int "jsval option"
      \<comment> \<open>\<open>new Error(response.error.message)\<close> with \<open>code\<close> and \<open>data\<close> copied from the response\<close>
  | TimedOut msg_id int
      \<comment> \<open>\<open>Request <id> timed out after <defaultTimeout>ms\<close>, code \<open>-32603\<close>\<close>
  | CannotRetryWithoutId
      \<comment> \<open>\<open>Cannot retry message without ID\<close>\<close>
  | NoPendingRequest msg_id
      \<comment> \<open>\<open>No pending request found for ID <id>\<close>\<close>
  | MaxRetriesExceeded int msg_id
      \<comment> \<open>\<open>Max retries (<maxRetries>) exceeded for request <id>\<close>\<close>
  | Cancelled msg_id
      \<comment> \<open>\<open>Request <id> was cancelled\<close>, code \<open>-32800\<close>\<close>
  | AllCancelled
      \<comment> \<open>\<open>All requests cancelled\<close>, code \<open>-32800\<close>\<close>
  | NoRouteFound string
      \<comment> \<open>\<open>No route found for message: <method or 'unknown'>\<close>\<close>
  | DestinationNotFound string
      \<comment> \<open>\<open>Destination '<name>' not found\<close>\<close>
  | AuthenticationFailed
      \<comment> \<open>\<open>Authentication failed\<close>\<close>
  | InvalidRegExp string
      \<comment> \<open>the \<open>SyntaxError\<close> of \<open>new RegExp(source)\<close>\<close>
  | NoActiveInstances
      \<comment> \<open>\<open>No active instances available\<close>\<close>
  | InstanceNotFound string
      \<comment> \<open>\<open>Instance <id> not found\<close>\<close>
  | ContainerNotRunning
      \<comment> \<open>\<open>Container not running\<close>\<close>
  | InvalidTranslation string
      \<comment> \<open>\<open>Translation rule '<name>' produced invalid message\<close>\<close>

section \<open>Envelope codec (\<open>transports/base/message-adapter.ts\<close>)\<close>

text \<open>\<open>typeof v === 'object'\<close>: true of objects, arrays and \<open>null\<close>.\<close>

fun typeof_object :: "jsval \<Rightarrow> bool" where
  "typeof_object JNull = True"
| "typeof_object (JArr _) = True"
| "typeof_object (JObj _) = True"
| "typeof_object _ = False"

text \<open>\<open>typeof v === 'string'\<close>.\<close>

fun typeof_string :: "jsval \<Rightarrow> bool" where
  "typeof_string (JStr _) = True"
| "typeof_string _ = False"

text \<open>
  Property read \<open>v.name\<close> for the five envelope properties. An absent property reads as
  \<open>undefined\<close>; an array has none of them. (On \<open>null\<close> and \<open>undefined\<close> the read throws in
  JavaScript; \<open>validate\<close> returns before it reads from \<open>null\<close>.)
\<close>

fun get_prop :: "jsval \<Rightarrow> string \<Rightarrow> jsval" where
  "get_prop (JObj fs) name = (case map_of fs name of None \<Rightarrow> JUndefined | Some v \<Rightarrow> v)"
| "get_prop _ name = JUndefined"

definition isRequest :: "jsval \<Rightarrow> bool" where
  "isRequest message \<longleftrightarrow>
     typeof_string (get_prop message ''method'') \<and> get_prop message ''id'' \<noteq> JUndefined"

definition isResponse :: "jsval \<Rightarrow> bool" where
  "isResponse message \<longleftrightarrow>
     (get_prop message ''result'' \<noteq> JUndefined \<or> get_prop message ''error'' \<noteq> JUndefined)
     \<and> get_prop message ''id'' \<noteq> JUndefined"

definition isNotification :: "jsval \<Rightarrow> bool" where
  "isNotification message \<longleftrightarrow>
     typeof_string (get_prop message ''method'') \<and> get_prop message ''id'' = JUndefined"

text \<open>\<open>JSONMessageAdapter.validate\<close>, check by check.\<close>

definition validate :: "jsval \<Rightarrow> bool" where
  "validate message =
     (if \<not> typeof_object message \<or> message = JNull then False
      else if get_prop message ''jsonrpc'' \<noteq> JStr ''2.0'' then False
      else isRequest message \<or> isResponse message \<or> isNotification message)"

text \<open>
  \<open>JSON.stringify\<close> and \<open>JSON.parse\<close> belong to the platform. They are parameters here:
  \<open>stringify\<close> gives the text or the message of the exception it throws (a cyclic value,
  a BigInt), \<open>parse\<close> gives the value or the message of its \<open>SyntaxError\<close>.
\<close>

type_synonym json_stringify = "jsval \<Rightarrow> string + string"
type_synonym json_parse = "string \<Rightarrow> string + jsval"

definition serialize :: "json_stringify \<Rightarrow> jsval \<Rightarrow> error + string" where
  "serialize stringify message =
     (case stringify message of
        Inl cause \<Rightarrow> Inl (SerializeFailed cause)
      | Inr text \<Rightarrow> Inr text)"

text \<open>
  \<open>deserialize\<close>: the \<open>Invalid MCP message format\<close> error is thrown inside the \<open>try\<close> and
  so is wrapped like a parse error.
\<close>

definition deserialize :: "json_parse \<Rightarrow> string \<Rightarrow> error + jsval" where
  "deserialize parse data =
     (case parse data of
        Inl cause \<Rightarrow> Inl (DeserializeFailed cause)
      | Inr parsed \<Rightarrow>
          if \<not> validate parsed then Inl (DeserializeFailed ''Invalid MCP message format'')
          else Inr parsed)"


text \<open>\<open>MessageTranslator.isValidMCPMessage\<close> (\<open>protocol/translator.ts\<close>).\<close>

definition isValidMCPMessage :: "jsval \<Rightarrow> bool" where
  "isValidMCPMessage message \<longleftrightarrow>
     typeof_object message \<and> message \<noteq> JNull \<and> get_prop message ''jsonrpc'' = JStr ''2.0'' \<and>
     ((typeof_string (get_prop message ''method'') \<and> get_prop message ''id'' \<noteq> JUndefined) \<or>
      (get_prop message ''id'' \<noteq> JUndefined \<and>
         (get_prop message ''result'' \<noteq> JUndefined \<or> get_prop message ''error'' \<noteq> JUndefined)) \<or>
      (typeof_string (get_prop message ''method'') \<and> get_prop message ''id'' = JUndefined))"

text \<open>
  The discriminant in the specification's words: a property is present when it is not
  \<open>undefined\<close>, and a message is exactly one of Request (method and id present),
  Notification (method present, id absent), Response (id present, exactly one of result
  and error present).
\<close>

definition present :: "jsval \<Rightarrow> string \<Rightarrow> bool" where
  "present message name \<longleftrightarrow> get_prop message name \<noteq> JUndefined"

definition spec_request :: "jsval \<Rightarrow> bool" where
  "spec_request message \<longleftrightarrow> present message ''method'' \<and> present message ''id''"

definition spec_notification :: "jsval \<Rightarrow> bool" where
  "spec_notification message \<longleftrightarrow> present message ''method'' \<and> \<not> present message ''id''"

definition spec_response :: "jsval \<Rightarrow> bool" where
  "spec_response message \<longleftrightarrow>
     present message ''id'' \<and> (present message ''result'' \<noteq> present message ''error'')"

definition spec_valid :: "jsval \<Rightarrow> bool" where
  "spec_valid message \<longleftrightarrow>
     get_prop message ''jsonrpc'' = JStr ''2.0'' \<and>
     ((spec_request message \<and> \<not> spec_notification message \<and> \<not> spec_response message) \<or>
      (\<not> spec_request message \<and> spec_notification message \<and> \<not> spec_response message) \<or>
      (\<not> spec_request message \<and> \<not> spec_notification message \<and> spec_response message))"

section \<open>Typed envelopes (\<open>MCPMessage\<close>, \<open>transports/base/transport-interface.ts\<close>)\<close>

record rpc_error =
  err_code :: int
  err_message :: string
  err_data :: "jsval option"

text \<open>An optional property is \<open>None\<close> when it is absent (or \<open>undefined\<close>).\<close>

record mcp_message =
  m_jsonrpc :: string
  m_id :: "msg_id option"
  m_method :: "string option"
  m_params :: "jsval option"
  m_result :: "jsval option"
  m_error :: "rpc_error option"

text \<open>
  JavaScript truthiness of an id: \<open>!message.id\<close> holds for an absent id, for the number
  \<open>0\<close> and for the empty string.
\<close>

fun falsy_id :: "msg_id \<Rightarrow> bool" where
  "falsy_id (IdStr s) = (s = [])"
| "falsy_id (IdNum n) = (n = 0)"

definition not_id :: "msg_id option \<Rightarrow> bool" where
  "not_id i = (case i of None \<Rightarrow> True | Some v \<Rightarrow> falsy_id v)"

text \<open>\<open>x || d\<close> for an optional number and for an optional string.\<close>

definition num_or :: "int option \<Rightarrow> int \<Rightarrow> int" where
  "num_or x d = (case x of None \<Rightarrow> d | Some v \<Rightarrow> if v = 0 then d else v)"

definition str_or :: "string option \<Rightarrow> string \<Rightarrow> string" where
  "str_or x d = (case x of None \<Rightarrow> d | Some v \<Rightarrow> if v = [] then d else v)"

section \<open>Correlation tracker (\<open>CorrelationTracker\<close>)\<close>

text \<open>
  A pending request holds its timer handle and the promise its \<open>resolve\<close>/\<open>reject\<close> pair
  settles; both are numbers handed out by counters of the state.
\<close>

record pending_request =
  pr_id :: msg_id
  pr_method :: string
  pr_timestamp :: int
  pr_timeout :: nat
  pr_waiter :: nat
  pr_retries :: int
  pr_maxRetries :: int

record correlation_config =
  defaultTimeout :: int
  maxRetries :: int
  cleanupInterval :: int
  enableMetrics :: bool

record correlation_metrics =
  cm_pendingRequests :: int
  cm_completedRequests :: int
  cm_timedOutRequests :: int
  cm_erroredRequests :: int
  cm_averageResponseTime :: real
  cm_requestCounts :: "string \<rightharpoonup> int"

datatype outcome = Resolved mcp_message | Rejected error

text \<open>
  The tracker's state. A \<open>PendingRequest\<close> is a mutable object that \<open>retryRequest\<close> holds
  on to across an \<open>await\<close>, so the objects live in a store, \<open>requests\<close>, and the \<open>Map\<close>
  \<open>pendingRequests\<close> holds references into it. The \<open>Map\<close> is the list of its entries in
  insertion order: \<open>Map.set\<close> is \<open>AList.update\<close> (replace in place, else append),
  \<open>Map.delete\<close> is \<open>AList.delete\<close>, \<open>Map.get\<close> is \<open>map_of\<close>. \<open>timers\<close> are the armed
  timeouts (handle, the id the callback passes to \<open>handleTimeout\<close>, delay); \<open>settled\<close>
  lists the promises settled so far, in order.
\<close>

record tracker =
  tracker_config :: correlation_config
  pendingRequests :: "(msg_id \<times> nat) list"
  requests :: "nat \<Rightarrow> pending_request"
  next_request :: nat
  tracker_metrics :: correlation_metrics
  responseTimes :: "int list"
  timers :: "(nat \<times> msg_id \<times> int) list"
  next_timer :: nat
  next_waiter :: nat
  settled :: "(nat \<times> outcome) list"

definition new_tracker :: "correlation_config \<Rightarrow> tracker" where
  "new_tracker cfg =
     \<lparr> tracker_config = cfg, pendingRequests = [],
       requests = (\<lambda>ref. \<lparr> pr_id = IdNum 0, pr_method = [], pr_timestamp = 0, pr_timeout = 0,
         pr_waiter = 0, pr_retries = 0, pr_maxRetries = 0 \<rparr>),
       next_request = 0,
       tracker_metrics = \<lparr> cm_pendingRequests = 0, cm_completedRequests = 0,
         cm_timedOutRequests = 0, cm_erroredRequests = 0, cm_averageResponseTime = 0,
         cm_requestCounts = Map.empty \<rparr>,
       responseTimes = [], timers = [], next_timer = 0, next_waiter = 0, settled = [] \<rparr>"

text \<open>\<open>this.pendingRequests.get(id)\<close>: the object, or nothing.\<close>

definition get_pending :: "tracker \<Rightarrow> msg_id \<Rightarrow> (nat \<times> pending_request) option" where
  "get_pending t i =
     (case map_of (pendingRequests t) i of
        None \<Rightarrow> None
      | Some ref \<Rightarrow> Some (ref, requests t ref))"

text \<open>\<open>clearTimeout(h)\<close>.\<close>

definition clearTimeout :: "nat \<Rightarrow> tracker \<Rightarrow> tracker" where
  "clearTimeout h t = t\<lparr> timers := filter (\<lambda>e. fst e \<noteq> h) (timers t) \<rparr>"

text \<open>\<open>setTimeout(() => this.handleTimeout(id), delay)\<close>: the new handle and the state.\<close>

definition setTimeout :: "msg_id \<Rightarrow> int \<Rightarrow> tracker \<Rightarrow> nat \<times> tracker" where
  "setTimeout i delay t =
     (next_timer t,
      t\<lparr> timers := timers t @ [(next_timer t, i, delay)], next_timer := Suc (next_timer t) \<rparr>)"

text \<open>Calling \<open>resolve\<close> or \<open>reject\<close> of a promise: only the first call settles it.\<close>

definition settle :: "nat \<Rightarrow> outcome \<Rightarrow> tracker \<Rightarrow> tracker" where
  "settle w out t =
     (if w \<in> fst ` set (settled t) then t else t\<lparr> settled := settled t @ [(w, out)] \<rparr>)"

text \<open>
  \<open>trackRequest\<close>. An exception of the \<open>async\<close> function is the rejection of the promise
  it returns (\<open>Inl\<close>); otherwise the result is the promise (\<open>Inr\<close>).
\<close>

definition trackRequest ::
  "tracker \<Rightarrow> int \<Rightarrow> mcp_message \<Rightarrow> int option \<Rightarrow> int option \<Rightarrow> (error + nat) \<times> tracker" where
  "trackRequest t now message timeout maxRetries' =
     (if not_id (m_id message) then (Inl MissingId, t)
      else let i = the (m_id message) in
        if map_of (pendingRequests t) i \<noteq> None then (Inl (AlreadyTracked i), t)
        else
          let requestTimeout = num_or timeout (defaultTimeout (tracker_config t));
              requestMaxRetries = num_or maxRetries' (maxRetries (tracker_config t))
          in case setTimeout i requestTimeout t of
               (h, t1) \<Rightarrow>
                 let pendingRequest = \<lparr> pr_id = i, pr_method = str_or (m_method message) ''unknown'',
                       pr_timestamp = now, pr_timeout = h, pr_waiter = next_waiter t1,
                       pr_retries = 0, pr_maxRetries = requestMaxRetries \<rparr>;
                     ref = next_request t1;
                     mt = tracker_metrics t1
                 in (Inr (next_waiter t1),
                     t1\<lparr> requests := (requests t1)(ref := pendingRequest),
                        next_request := Suc ref,
                        pendingRequests := AList.update i ref (pendingRequests t1),
                        next_waiter := Suc (next_waiter t1),
                        tracker_metrics :=
                          (if enableMetrics (tracker_config t1)
                           then mt\<lparr> cm_pendingRequests := cm_pendingRequests mt + 1,
                             cm_requestCounts := (cm_requestCounts mt)(pr_method pendingRequest \<mapsto>
                               (case cm_requestCounts mt (pr_method pendingRequest) of
                                  None \<Rightarrow> 0 | Some c \<Rightarrow> c) + 1) \<rparr>
                           else mt) \<rparr>))"

text \<open>\<open>this.responseTimes.slice(-1000)\<close>: the last 1000 entries.\<close>

definition last1000 :: "int list \<Rightarrow> int list" where
  "last1000 xs = drop (length xs - 1000) xs"

definition updateMetrics :: "tracker \<Rightarrow> int \<Rightarrow> pending_request \<Rightarrow> bool \<Rightarrow> tracker" where
  "updateMetrics t now request isError =
     (let responseTime = now - pr_timestamp request;
          mt = (tracker_metrics t)\<lparr> cm_pendingRequests := cm_pendingRequests (tracker_metrics t) - 1 \<rparr>
      in if isError
         then t\<lparr> tracker_metrics := mt\<lparr> cm_erroredRequests := cm_erroredRequests mt + 1 \<rparr> \<rparr>
         else
           let rts = responseTimes t @ [responseTime];
               rts' = (if length rts > 1000 then last1000 rts else rts)
           in t\<lparr> responseTimes := rts',
                tracker_metrics := mt\<lparr> cm_completedRequests := cm_completedRequests mt + 1,
                  cm_averageResponseTime := real_of_int (sum_list rts') / real (length rts') \<rparr> \<rparr>)"

definition handleResponse :: "tracker \<Rightarrow> int \<Rightarrow> mcp_message \<Rightarrow> bool \<times> tracker" where
  "handleResponse t now response =
     (if not_id (m_id response) then (False, t)
      else let i = the (m_id response) in
        case get_pending t i of
          None \<Rightarrow> (False, t)
        | Some (ref, pendingRequest) \<Rightarrow>
            let t1 = clearTimeout (pr_timeout pendingRequest) t;
                t2 = t1\<lparr> pendingRequests := AList.delete i (pendingRequests t1) \<rparr>;
                t3 = (if enableMetrics (tracker_config t2)
                      then updateMetrics t2 now pendingRequest False else t2)
            in (True,
                case m_error response of
                  Some e \<Rightarrow> settle (pr_waiter pendingRequest)
                    (Rejected (ResponseError (err_message e) (err_code e) (err_data e))) t3
                | None \<Rightarrow> settle (pr_waiter pendingRequest) (Resolved response) t3))"

definition handleTimeout :: "tracker \<Rightarrow> msg_id \<Rightarrow> tracker" where
  "handleTimeout t requestId =
     (case get_pending t requestId of
        None \<Rightarrow> t
      | Some (ref, pendingRequest) \<Rightarrow>
          let t1 = t\<lparr> pendingRequests := AList.delete requestId (pendingRequests t) \<rparr>;
              mt = tracker_metrics t1;
              t2 = (if enableMetrics (tracker_config t1)
                    then t1\<lparr> tracker_metrics := mt\<lparr>
                      cm_timedOutRequests := cm_timedOutRequests mt + 1,
                      cm_pendingRequests := cm_pendingRequests mt - 1 \<rparr> \<rparr>
                    else t1)
          in settle (pr_waiter pendingRequest)
               (Rejected (TimedOut requestId (defaultTimeout (tracker_config t2)))) t2)"

text \<open>
  An armed timeout fires: the timer is gone and its callback calls \<open>handleTimeout\<close>. A
  handle that was cleared, or never armed, fires nothing.
\<close>

definition timer_fires :: "tracker \<Rightarrow> nat \<Rightarrow> tracker" where
  "timer_fires t h =
     (case map_of (timers t) h of
        None \<Rightarrow> t
      | Some (requestId, delay) \<Rightarrow> handleTimeout (clearTimeout h t) requestId)"

text \<open>
  \<open>retryRequest\<close> suspends at \<open>await sendFn(originalMessage)\<close>, and other events may run
  before it resumes. Its first half runs up to the call of \<open>sendFn\<close>: the result is the
  exception it throws, or what it holds while it waits: the id of the message and the
  reference to the \<open>PendingRequest\<close>.
\<close>

definition retryRequest_begin ::
  "tracker \<Rightarrow> int \<Rightarrow> mcp_message \<Rightarrow> (error + msg_id \<times> nat) \<times> tracker" where
  "retryRequest_begin t now originalMessage =
     (if not_id (m_id originalMessage) then (Inl CannotRetryWithoutId, t)
      else let i = the (m_id originalMessage) in
        case get_pending t i of
          None \<Rightarrow> (Inl (NoPendingRequest i), t)
        | Some (ref, pendingRequest) \<Rightarrow>
            if pr_retries pendingRequest \<ge> pr_maxRetries pendingRequest then
              let t1 = t\<lparr> pendingRequests := AList.delete i (pendingRequests t) \<rparr>;
                  t2 = clearTimeout (pr_timeout pendingRequest) t1;
                  err = MaxRetriesExceeded (pr_maxRetries pendingRequest) i
              in (Inl err, settle (pr_waiter pendingRequest) (Rejected err) t2)
            else
              let t1 = t\<lparr> requests := (requests t)(ref :=
                         pendingRequest\<lparr> pr_retries := pr_retries pendingRequest + 1 \<rparr>) \<rparr>;
                  t2 = clearTimeout (pr_timeout pendingRequest) t1
              in case setTimeout i (defaultTimeout (tracker_config t2)) t2 of
                   (h, t3) \<Rightarrow>
                     (Inr (i, ref),
                      t3\<lparr> requests := (requests t3)(ref :=
                            (requests t3 ref)\<lparr> pr_timeout := h, pr_timestamp := now \<rparr>) \<rparr>))"

text \<open>
  Its second half, when the promise of \<open>sendFn\<close> has settled (\<open>None\<close>: resolved,
  \<open>Some e\<close>: rejected with \<open>e\<close>). It works on the object it holds, whether or not the
  \<open>Map\<close> still has it, and deletes by id.
\<close>

definition retryRequest_resume ::
  "tracker \<Rightarrow> msg_id \<Rightarrow> nat \<Rightarrow> error option \<Rightarrow> (error + nat) \<times> tracker" where
  "retryRequest_resume t i ref sent =
     (case sent of
        None \<Rightarrow>
          (Inr (next_waiter t),
           t\<lparr> requests := (requests t)(ref := (requests t ref)\<lparr> pr_waiter := next_waiter t \<rparr>),
              next_waiter := Suc (next_waiter t) \<rparr>)
      | Some e \<Rightarrow>
          let t1 = t\<lparr> pendingRequests := AList.delete i (pendingRequests t) \<rparr>;
              t2 = clearTimeout (pr_timeout (requests t1 ref)) t1
          in (Inl e, settle (pr_waiter (requests t2 ref)) (Rejected e) t2))"

text \<open>\<open>retryRequest\<close> when nothing else runs while it waits.\<close>

definition retryRequest ::
  "tracker \<Rightarrow> int \<Rightarrow> mcp_message \<Rightarrow> error option \<Rightarrow> (error + nat) \<times> tracker" where
  "retryRequest t now originalMessage sent =
     (case retryRequest_begin t now originalMessage of
        (Inl e, t1) \<Rightarrow> (Inl e, t1)
      | (Inr (i, ref), t1) \<Rightarrow> retryRequest_resume t1 i ref sent)"

definition cancelRequest :: "tracker \<Rightarrow> msg_id \<Rightarrow> bool \<times> tracker" where
  "cancelRequest t requestId =
     (case get_pending t requestId of
        None \<Rightarrow> (False, t)
      | Some (ref, pendingRequest) \<Rightarrow>
          let t1 = clearTimeout (pr_timeout pendingRequest) t;
              t2 = t1\<lparr> pendingRequests := AList.delete requestId (pendingRequests t1) \<rparr>;
              mt = tracker_metrics t2;
              t3 = (if enableMetrics (tracker_config t2)
                    then t2\<lparr> tracker_metrics := mt\<lparr> cm_pendingRequests := cm_pendingRequests mt - 1 \<rparr> \<rparr>
                    else t2)
          in (True, settle (pr_waiter pendingRequest) (Rejected (Cancelled requestId)) t3))"

text \<open>The loop of \<open>cancelAllRequests\<close> over the entries of the map.\<close>

fun cancel_each :: "(msg_id \<times> nat) list \<Rightarrow> tracker \<Rightarrow> tracker" where
  "cancel_each [] t = t"
| "cancel_each ((i, ref) # rest) t =
     cancel_each rest (settle (pr_waiter (requests t ref)) (Rejected AllCancelled)
       (clearTimeout (pr_timeout (requests t ref)) t))"

definition cancelAllRequests :: "tracker \<Rightarrow> nat \<times> tracker" where
  "cancelAllRequests t =
     (let count = length (pendingRequests t);
          t1 = cancel_each (pendingRequests t) t;
          t2 = t1\<lparr> pendingRequests := [] \<rparr>;
          t3 = (if enableMetrics (tracker_config t2)
                then t2\<lparr> tracker_metrics := (tracker_metrics t2)\<lparr> cm_pendingRequests := 0 \<rparr> \<rparr>
                else t2)
      in (count, t3))"

text \<open>\<open>cleanupStaleRequests\<close>: collect the stale ids, then cancel each.\<close>

definition staleRequests :: "tracker \<Rightarrow> int \<Rightarrow> msg_id list" where
  "staleRequests t now =
     map fst (filter (\<lambda>(i, ref).
         now - pr_timestamp (requests t ref) > defaultTimeout (tracker_config t) * 2)
       (pendingRequests t))"

definition cleanupStaleRequests :: "tracker \<Rightarrow> int \<Rightarrow> tracker" where
  "cleanupStaleRequests t now = foldl (\<lambda>s i. snd (cancelRequest s i)) t (staleRequests t now)"

text \<open>
  The events that change a tracker, each with the clock reading and the arguments it
  carries, and the states reached from a new tracker. A retry is two events, so that
  others can come between its halves.
\<close>

datatype tracker_event =
    TrackRequest int mcp_message "int option" "int option"
  | HandleResponse int mcp_message
  | TimerFires nat
  | RetryBegins int mcp_message
  | RetryResumes msg_id nat "error option"
  | CancelRequest msg_id
  | CancelAllRequests
  | CleanupStaleRequests int

fun tracker_step :: "tracker \<Rightarrow> tracker_event \<Rightarrow> tracker" where
  "tracker_step t (TrackRequest now message timeout mr) = snd (trackRequest t now message timeout mr)"
| "tracker_step t (HandleResponse now response) = snd (handleResponse t now response)"
| "tracker_step t (TimerFires h) = timer_fires t h"
| "tracker_step t (RetryBegins now message) = snd (retryRequest_begin t now message)"
| "tracker_step t (RetryResumes i ref sent) = snd (retryRequest_resume t i ref sent)"
| "tracker_step t (CancelRequest requestId) = snd (cancelRequest t requestId)"
| "tracker_step t CancelAllRequests = snd (cancelAllRequests t)"
| "tracker_step t (CleanupStaleRequests now) = cleanupStaleRequests t now"

definition tracker_run :: "correlation_config \<Rightarrow> tracker_event list \<Rightarrow> tracker" where
  "tracker_run cfg events = foldl tracker_step (new_tracker cfg) events"

definition pending_ids :: "tracker \<Rightarrow> msg_id list" where
  "pending_ids t = map fst (pendingRequests t)"

text \<open>
  The invariant of the reachable states: no id is pending twice, and no pending id is
  falsy.
\<close>

definition ok_keys :: "msg_id list \<Rightarrow> bool" where
  "ok_keys ks \<longleftrightarrow> distinct ks \<and> list_all (\<lambda>i. \<not> falsy_id i) ks"

definition tracker_inv :: "tracker \<Rightarrow> bool" where
  "tracker_inv t \<longleftrightarrow> ok_keys (map fst (pendingRequests t))"

section \<open>Message router (\<open>protocol/message-router.ts\<close>)\<close>

text \<open>
  What the router does to the outside is to call destination handlers. \<open>delivered\<close> lists
  these calls in order. \<open>chain_index\<close> is the variable \<open>index\<close> that the closure \<open>next\<close>
  of \<open>executeMiddlewareChain\<close> shares between its calls.
\<close>

record world =
  chain_index :: nat
  delivered :: "(string \<times> mcp_message) list"

text \<open>
  An asynchronous step: from a world it settles with success (\<open>None\<close>) or an error, in a
  new world; the result \<open>None\<close> is a promise that never settles.
\<close>

type_synonym action = "world \<Rightarrow> (error option \<times> world) option"

record message_transformer =
  transformer_name :: string
  transform :: "mcp_message \<Rightarrow> error + mcp_message"

record route_middleware =
  middleware_name :: string
  execute :: "mcp_message \<Rightarrow> action \<Rightarrow> action"

record message_handler =
  handle :: "mcp_message \<Rightarrow> error option"

datatype route_pattern = StringPattern string | RegExpPattern string

record route_config =
  pattern :: route_pattern
  destination :: string
  transformers :: "message_transformer list option"
  middleware :: "route_middleware list option"

type_synonym route_params = "(string \<times> string) list"

record route_match =
  route_of :: route_config
  params_of :: route_params

record message_router =
  routes :: "route_config list"
  globalMiddleware :: "route_middleware list"
  destinations :: "(string \<times> message_handler) list"




definition addGlobalMiddleware :: "route_middleware \<Rightarrow> message_router \<Rightarrow> message_router" where
  "addGlobalMiddleware mw r = r\<lparr> globalMiddleware := globalMiddleware r @ [mw] \<rparr>"

text \<open>
  The regular expression engine of the platform is a parameter: for a source text and a
  subject it gives the \<open>SyntaxError\<close> of \<open>new RegExp\<close>, or \<open>None\<close> when \<open>match\<close> returns
  \<open>null\<close>, or the named groups of the match.
\<close>

type_synonym regexp_engine = "string \<Rightarrow> string \<Rightarrow> string + route_params option"

text \<open>
  \<open>pattern.replace(/\{([^}]+)\}/g, '(?<$1>[^/]+)')\<close>: at an opening brace followed by at
  least one character other than a closing brace and then a closing brace, the three
  become a named group; scanning goes on behind the closing brace.
\<close>

function replace_params :: "string \<Rightarrow> string" where
  "replace_params [] = []"
| "replace_params (c # cs) =
     (if c = CHR ''{'' \<and> takeWhile (\<lambda>x. x \<noteq> CHR ''}'') cs \<noteq> [] \<and>
         dropWhile (\<lambda>x. x \<noteq> CHR ''}'') cs \<noteq> []
      then ''(?<'' @ takeWhile (\<lambda>x. x \<noteq> CHR ''}'') cs @ ''>[^/]+)'' @
           replace_params (tl (dropWhile (\<lambda>x. x \<noteq> CHR ''}'') cs))
      else c # replace_params cs)"
  by pat_completeness auto
termination
proof (relation "measure length")
  fix c :: char and cs :: string
  have "length (tl (dropWhile (\<lambda>x. x \<noteq> CHR ''}'') cs)) \<le> length cs"
    using length_dropWhile_le [of "\<lambda>x. x \<noteq> CHR ''}''" cs] by simp
  then show "(tl (dropWhile (\<lambda>x. x \<noteq> CHR ''}'') cs), c # cs) \<in> measure length"
    by simp
qed simp_all

text \<open>\<open>.replace(/\*/g, '.*')\<close>.\<close>

definition replace_stars :: "string \<Rightarrow> string" where
  "replace_stars s = concat (map (\<lambda>c. if c = CHR ''*'' then ''.*'' else [c]) s)"

definition matchStringPattern :: "regexp_engine \<Rightarrow> string \<Rightarrow> string \<Rightarrow> error + route_params option" where
  "matchStringPattern engine method' pat =
     (case engine (''^'' @ replace_stars (replace_params pat) @ ''$'') method' of
        Inl cause \<Rightarrow> Inl (InvalidRegExp cause)
      | Inr m \<Rightarrow> Inr m)"

definition matchRoute :: "regexp_engine \<Rightarrow> string \<Rightarrow> route_config \<Rightarrow> error + route_params option" where
  "matchRoute engine method' route =
     (case pattern route of
        StringPattern pat \<Rightarrow> matchStringPattern engine method' pat
      | RegExpPattern source \<Rightarrow>
          (case engine source method' of
             Inl cause \<Rightarrow> Inl (InvalidRegExp cause)
           | Inr m \<Rightarrow> Inr m))"

text \<open>The loop of \<open>findMatches\<close> over the routes; an exception of the engine leaves it.\<close>

fun collect_matches :: "regexp_engine \<Rightarrow> string \<Rightarrow> route_config list \<Rightarrow> error + route_match list" where
  "collect_matches engine method' [] = Inr []"
| "collect_matches engine method' (route # rest) =
     (case matchRoute engine method' route of
        Inl e \<Rightarrow> Inl e
      | Inr None \<Rightarrow> collect_matches engine method' rest
      | Inr (Some ps) \<Rightarrow>
          (case collect_matches engine method' rest of
             Inl e \<Rightarrow> Inl e
           | Inr matches \<Rightarrow> Inr (\<lparr> route_of = route, params_of = ps \<rparr> # matches)))"

definition findMatches :: "regexp_engine \<Rightarrow> message_router \<Rightarrow> mcp_message \<Rightarrow> error + route_match list" where
  "findMatches engine r message = collect_matches engine (str_or (m_method message) []) (routes r)"

text \<open>The loop of \<open>processRoute\<close> over the transformers: the first failure aborts.\<close>

fun apply_transformers :: "message_transformer list \<Rightarrow> mcp_message \<Rightarrow> error + mcp_message" where
  "apply_transformers [] processedMessage = Inr processedMessage"
| "apply_transformers (t # ts) processedMessage =
     (case transform t processedMessage of
        Inl e \<Rightarrow> Inl e
      | Inr m \<Rightarrow> apply_transformers ts m)"

definition sendToDestination :: "message_router \<Rightarrow> mcp_message \<Rightarrow> string \<Rightarrow> action" where
  "sendToDestination r message destinationName w =
     (case map_of (destinations r) destinationName of
        None \<Rightarrow> Some (Some (DestinationNotFound destinationName), w)
      | Some handler \<Rightarrow>
          Some (handle handler message,
                w\<lparr> delivered := delivered w @ [(destinationName, message)] \<rparr>))"

text \<open>
  The closure \<open>next\<close>. It reads the shared \<open>index\<close>, so a second call by the same
  middleware goes on where the chain stands. The first argument bounds how deeply calls
  of \<open>next\<close> nest; each nested call comes after an increment of \<open>index\<close>, so the depth
  never passes the length of the chain plus one.
\<close>

fun chain_next :: "nat \<Rightarrow> mcp_message \<Rightarrow> route_middleware list \<Rightarrow> action \<Rightarrow> action" where
  "chain_next 0 message mws finalHandler w = None"
| "chain_next (Suc depth) message mws finalHandler w =
     (if chain_index w \<ge> length mws then finalHandler w
      else execute (mws ! chain_index w) message (chain_next depth message mws finalHandler)
             (w\<lparr> chain_index := Suc (chain_index w) \<rparr>))"

definition executeMiddlewareChain :: "mcp_message \<Rightarrow> route_middleware list \<Rightarrow> action \<Rightarrow> action" where
  "executeMiddlewareChain message mws finalHandler w =
     chain_next (Suc (length mws)) message mws finalHandler (w\<lparr> chain_index := 0 \<rparr>)"

definition list_or :: "'a list option \<Rightarrow> 'a list" where
  "list_or xs = (case xs of None \<Rightarrow> [] | Some ys \<Rightarrow> ys)"

definition processRoute :: "message_router \<Rightarrow> mcp_message \<Rightarrow> route_match \<Rightarrow> action" where
  "processRoute r message match w =
     (case apply_transformers (list_or (transformers (route_of match))) message of
        Inl e \<Rightarrow> Some (Some e, w)
      | Inr processedMessage \<Rightarrow>
          executeMiddlewareChain processedMessage
            (globalMiddleware r @ list_or (middleware (route_of match)))
            (sendToDestination r processedMessage (destination (route_of match))) w)"

text \<open>
  \<open>Promise.all(matches.map(match => this.processRoute(message, match)))\<close>: every route is
  processed, also after another has failed; the result is the first failure, if any.
  The routes are taken one after the other, in the order of the matches.
\<close>

fun process_all :: "message_router \<Rightarrow> mcp_message \<Rightarrow> route_match list \<Rightarrow> action" where
  "process_all r message [] w = Some (None, w)"
| "process_all r message (match # rest) w =
     (case processRoute r message match w of
        None \<Rightarrow> None
      | Some (e1, w1) \<Rightarrow>
          (case process_all r message rest w1 of
             None \<Rightarrow> None
           | Some (e2, w2) \<Rightarrow> Some (case e1 of Some e \<Rightarrow> Some e | None \<Rightarrow> e2, w2)))"

definition route :: "regexp_engine \<Rightarrow> message_router \<Rightarrow> mcp_message \<Rightarrow> action" where
  "route engine r message w =
     (case findMatches engine r message of
        Inl e \<Rightarrow> Some (Some e, w)
      | Inr matches \<Rightarrow>
          if matches = [] then Some (Some (NoRouteFound (str_or (m_method message) ''unknown'')), w)
          else process_all r message matches w)"





section \<open>Subprocess channel and pool (\<open>ContainerManager\<close>, \<open>ProcessPool\<close>)\<close>

text \<open>
  Of a subprocess channel the pool sees whether it has a process, whether it is connected,
  what was written to the standard input of the process, and its counters.
\<close>

record container =
  has_process :: bool
  connected :: bool
  stdin_written :: "string list"
  sent_count :: nat
  error_count :: nat

text \<open>
  \<open>ContainerManager.send\<close>. The result says, besides the error, whether \<open>handleError\<close>
  ran (it does for a failure inside the \<open>try\<close>, not for \<open>Container not running\<close>):
  \<open>handleError\<close> calls the error subscribers, and the pool is one of them.
\<close>

definition container_send ::
  "json_stringify \<Rightarrow> container \<Rightarrow> jsval \<Rightarrow> error option \<times> bool \<times> container" where
  "container_send stringify c message =
     (if \<not> has_process c \<or> \<not> connected c then (Some ContainerNotRunning, False, c)
      else case serialize stringify message of
             Inr serialized \<Rightarrow>
               (None, False,
                c\<lparr> stdin_written := stdin_written c @ [serialized @ [CHR 0x0A]],
                   sent_count := Suc (sent_count c) \<rparr>)
           | Inl e \<Rightarrow> (Some e, True, c\<lparr> error_count := Suc (error_count c) \<rparr>))"

definition isConnected :: "container \<Rightarrow> bool" where
  "isConnected c \<longleftrightarrow> connected c \<and> has_process c"

text \<open>\<open>ContainerManager.close\<close> (the signals it sends to the process are not part of the state).\<close>

definition container_close :: "container \<Rightarrow> container" where
  "container_close c = c\<lparr> connected := False, has_process := False \<rparr>"

record process_pool_config =
  maxInstances :: nat
  minInstances :: nat
  healthCheckInterval :: int
  restartOnFailure :: bool

text \<open>
  \<open>instances\<close> is the \<open>Map\<close> and \<open>activeInstances\<close> the \<open>Set\<close>, both in insertion order.
\<close>

record process_pool =
  poolConfig :: process_pool_config
  instances :: "(string \<times> container) list"
  activeInstances :: "string list"
  roundRobinIndex :: nat

text \<open>
  \<open>handleInstanceFailure\<close> is called without \<open>await\<close>. What it does before it first
  suspends: it removes the id from the active set and, when the instance is in the map,
  calls its \<open>close\<close>. The rest (removing the instance from the map, the restart, the
  replacement instances) runs later and is not part of \<open>send\<close>.
\<close>

definition handleInstanceFailure_begin :: "process_pool \<Rightarrow> string \<Rightarrow> process_pool" where
  "handleInstanceFailure_begin p i =
     (let p1 = p\<lparr> activeInstances := removeAll i (activeInstances p) \<rparr>
      in case map_of (instances p1) i of
           None \<Rightarrow> p1
         | Some instance \<Rightarrow>
             p1\<lparr> instances := AList.update i (container_close instance) (instances p1) \<rparr>)"

text \<open>
  One call of \<open>instance.send(message)\<close> from the pool: the instance in the map changes,
  and the pool's error subscription runs when \<open>handleError\<close> did.
\<close>

definition instance_send ::
  "json_stringify \<Rightarrow> process_pool \<Rightarrow> string \<Rightarrow> container \<Rightarrow> jsval \<Rightarrow> error option \<times> process_pool" where
  "instance_send stringify p i instance message =
     (case container_send stringify instance message of
        (res, handled, instance') \<Rightarrow>
          let p1 = p\<lparr> instances := AList.update i instance' (instances p) \<rparr>
          in (res, if handled then handleInstanceFailure_begin p1 i else p1))"

text \<open>
  \<open>ProcessPool.send\<close>, as one step: a call that no other call of \<open>send\<close> and no
  other event of the pool overlaps, so that \<open>roundRobinIndex\<close> and the maps are, in the
  \<open>catch\<close> block, what this call left them.
\<close>

definition pool_send :: "json_stringify \<Rightarrow> process_pool \<Rightarrow> jsval \<Rightarrow> (error + unit) \<times> process_pool" where
  "pool_send stringify p message =
     (let activeInstanceIds = activeInstances p in
      if length activeInstanceIds = 0 then (Inl NoActiveInstances, p)
      else
        let instanceId = activeInstanceIds ! (roundRobinIndex p mod length activeInstanceIds);
            p1 = p\<lparr> roundRobinIndex := Suc (roundRobinIndex p) \<rparr>
        in case map_of (instances p1) instanceId of
             None \<Rightarrow> (Inl (InstanceNotFound instanceId), p1)
           | Some instance \<Rightarrow>
               (case instance_send stringify p1 instanceId instance message of
                  (None, p2) \<Rightarrow> (Inr (), p2)
                | (Some e, p2) \<Rightarrow>
                    let p3 = handleInstanceFailure_begin p2 instanceId in
                    if length activeInstanceIds > 1 then
                      let nextInstanceId =
                            activeInstanceIds ! (roundRobinIndex p3 mod length activeInstanceIds)
                      in case map_of (instances p3) nextInstanceId of
                           None \<Rightarrow> (Inr (), p3)
                         | Some nextInstance \<Rightarrow>
                             (case instance_send stringify p3 nextInstanceId nextInstance message of
                                (None, p4) \<Rightarrow> (Inr (), p4)
                              | (Some e2, p4) \<Rightarrow> (Inl e2, p4))
                    else (Inl e, p3)))"

text \<open>What has been written to each instance of the pool.\<close>

definition written :: "process_pool \<Rightarrow> (string \<times> string list) list" where
  "written p = map (\<lambda>(i, c). (i, stdin_written c)) (instances p)"

section \<open>Reconnection engine (\<open>transports/websocket/reconnection-handler.ts\<close>)\<close>

text \<open>
  Delays and the backoff factor are JavaScript numbers; they are real numbers here, with
  exact arithmetic. \<open>Math.pow\<close> with an integer exponent is \<open>powi\<close>.
\<close>

record reconnection_config =
  maxAttempts :: int
  initialDelay :: real
  maxDelay :: real
  backoffFactor :: real
  jitter :: bool

record reconnection_handler =
  reconnection_config_of :: reconnection_config
  attempts :: int
  reconnectTimer :: "int option"
  isReconnecting :: bool

definition new_reconnection_handler :: "reconnection_config \<Rightarrow> reconnection_handler" where
  "new_reconnection_handler cfg =
     \<lparr> reconnection_config_of = cfg, attempts = 0, reconnectTimer = None, isReconnecting = False \<rparr>"








section \<open>Message translator (\<open>protocol/translator.ts\<close>)\<close>

record translation_rule =
  rule_name :: string
  condition :: "jsval \<Rightarrow> bool"
  rule_transform :: "jsval \<Rightarrow> error + jsval"

record translator_config =
  enableValidation :: bool
  throwOnValidationError :: bool
  logTranslations :: bool

record message_translator =
  rules :: "translation_rule list"
  translator_config_of :: translator_config

text \<open>The body of the loop of \<open>translate\<close>: one rule applied to the current result.\<close>

definition apply_rule :: "translator_config \<Rightarrow> translation_rule \<Rightarrow> jsval \<Rightarrow> error + jsval" where
  "apply_rule cfg rule result =
     (case rule_transform rule result of
        Inl e \<Rightarrow> Inl e
      | Inr result' \<Rightarrow>
          if enableValidation cfg \<and> \<not> isValidMCPMessage result' \<and> throwOnValidationError cfg
          then Inl (InvalidTranslation (rule_name rule))
          else Inr result')"

fun apply_rules :: "translator_config \<Rightarrow> translation_rule list \<Rightarrow> jsval \<Rightarrow> error + jsval" where
  "apply_rules cfg [] result = Inr result"
| "apply_rules cfg (rule # rest) result =
     (case apply_rule cfg rule result of
        Inl e \<Rightarrow> Inl e
      | Inr result' \<Rightarrow> apply_rules cfg rest result')"

definition translate :: "message_translator \<Rightarrow> jsval \<Rightarrow> error + jsval" where
  "translate tr message =
     (let result = message;
          applicableRules = filter (\<lambda>rule. condition rule result) (rules tr)
      in if length applicableRules = 0 then Inr result
         else apply_rules (translator_config_of tr) applicableRules result)"

text \<open>
  The specification's reading, rule by rule: a rule is applicable when its predicate
  holds of the original message; an applicable rule is applied to the result accumulated
  so far, the others are passed over.
\<close>

fun translate_spec ::
  "translator_config \<Rightarrow> jsval \<Rightarrow> translation_rule list \<Rightarrow> jsval \<Rightarrow> error + jsval" where
  "translate_spec cfg original [] acc = Inr acc"
| "translate_spec cfg original (rule # rest) acc =
     (if condition rule original
      then (case apply_rule cfg rule acc of
              Inl e \<Rightarrow> Inl e
            | Inr acc' \<Rightarrow> translate_spec cfg original rest acc')
      else translate_spec cfg original rest acc)"

text \<open>\<open>builtInRules.addJsonRpcVersion\<close>: \<open>{ ...message, jsonrpc: '2.0' }\<close>.\<close>

definition set_prop :: "jsval \<Rightarrow> string \<Rightarrow> jsval \<Rightarrow> jsval" where
  "set_prop message name v =
     (case message of JObj fs \<Rightarrow> JObj (AList.update name v fs) | _ \<Rightarrow> JObj [(name, v)])"

definition addJsonRpcVersion :: translation_rule where
  "addJsonRpcVersion =
     \<lparr> rule_name = ''addJsonRpcVersion'',
       condition = (\<lambda>message. get_prop message ''jsonrpc'' \<noteq> JStr ''2.0''),
       rule_transform = (\<lambda>message. Inr (set_prop message ''jsonrpc'' (JStr ''2.0''))) \<rparr>"

section \<open>Channel metrics (\<open>BaseTransport\<close>, \<open>transports/base/transport-interface.ts\<close>)\<close>

text \<open>
  Metrics records and \<open>Date\<close> objects live in a store, so that two references to one
  object can be told from two objects with equal contents. \<open>lastActivity\<close> holds a
  reference to a \<open>Date\<close>; a \<open>Date\<close> holds its time value.
\<close>

record transport_metrics =
  messagesSent :: int
  messagesReceived :: int
  errors :: int
  connectionTime :: int
  lastActivity :: nat

record store =
  metrics_at :: "nat \<Rightarrow> transport_metrics"
  date_at :: "nat \<Rightarrow> int"
  next_ref :: nat

record base_transport =
  metrics_ref :: nat

text \<open>\<open>new Date()\<close> at clock reading \<open>now\<close>.\<close>

definition new_Date :: "int \<Rightarrow> store \<Rightarrow> nat \<times> store" where
  "new_Date now s =
     (next_ref s, s\<lparr> date_at := (date_at s)(next_ref s := now), next_ref := Suc (next_ref s) \<rparr>)"

text \<open>An object literal with the given fields.\<close>

definition new_metrics :: "transport_metrics \<Rightarrow> store \<Rightarrow> nat \<times> store" where
  "new_metrics m s =
     (next_ref s, s\<lparr> metrics_at := (metrics_at s)(next_ref s := m), next_ref := Suc (next_ref s) \<rparr>)"


text \<open>\<open>getMetrics\<close>: \<open>{ ...this.metrics }\<close>, a new object with the same field values.\<close>

definition getMetrics :: "base_transport \<Rightarrow> store \<Rightarrow> nat \<times> store" where
  "getMetrics tr s = new_metrics (metrics_at s (metrics_ref tr)) s"

definition update_metrics :: "nat \<Rightarrow> (transport_metrics \<Rightarrow> transport_metrics) \<Rightarrow> store \<Rightarrow> store" where
  "update_metrics a f s = s\<lparr> metrics_at := (metrics_at s)(a := f (metrics_at s a)) \<rparr>"

text \<open>
  \<open>handleMessage\<close>, \<open>handleError\<close> and \<open>incrementSentMessages\<close>, as far as the metrics go
  (the subscribers they call are outside).
\<close>

definition handleMessage :: "base_transport \<Rightarrow> int \<Rightarrow> store \<Rightarrow> store" where
  "handleMessage tr now s =
     (let s1 = update_metrics (metrics_ref tr)
                 (\<lambda>m. m\<lparr> messagesReceived := messagesReceived m + 1 \<rparr>) s
      in case new_Date now s1 of
           (d, s2) \<Rightarrow> update_metrics (metrics_ref tr) (\<lambda>m. m\<lparr> lastActivity := d \<rparr>) s2)"

definition handleError :: "base_transport \<Rightarrow> store \<Rightarrow> store" where
  "handleError tr s = update_metrics (metrics_ref tr) (\<lambda>m. m\<lparr> errors := errors m + 1 \<rparr>) s"

definition incrementSentMessages :: "base_transport \<Rightarrow> int \<Rightarrow> store \<Rightarrow> store" where
  "incrementSentMessages tr now s =
     (let s1 = update_metrics (metrics_ref tr) (\<lambda>m. m\<lparr> messagesSent := messagesSent m + 1 \<rparr>) s
      in case new_Date now s1 of
           (d, s2) \<Rightarrow> update_metrics (metrics_ref tr) (\<lambda>m. m\<lparr> lastActivity := d \<rparr>) s2)"




text \<open>\<open>date.setTime(v)\<close> on the \<open>Date\<close> at a reference.\<close>

definition setTime :: "nat \<Rightarrow> int \<Rightarrow> store \<Rightarrow> store" where
  "setTime d v s = s\<lparr> date_at := (date_at s)(d := v) \<rparr>"

text \<open>
  What reading a metrics record gives: its four numbers and the time of the \<open>Date\<close> it
  refers to.
\<close>

definition read_metrics :: "store \<Rightarrow> nat \<Rightarrow> int \<times> int \<times> int \<times> int \<times> int" where
  "read_metrics s a =
     (let m = metrics_at s a
      in (messagesSent m, messagesReceived m, errors m, connectionTime m, date_at s (lastActivity m)))"

text \<open>
  References are handed out in increasing order: the transport's record and its \<open>Date\<close> lie
  below the next free reference.
\<close>

definition allocated :: "base_transport \<Rightarrow> store \<Rightarrow> bool" where
  "allocated tr s \<longleftrightarrow>
     metrics_ref tr < next_ref s \<and> lastActivity (metrics_at s (metrics_ref tr)) < next_ref s"

text \<open>
  The events of a channel that touch its metrics, and a record returned earlier by
  \<open>getMetrics\<close>: another object than the channel's own, whose \<open>Date\<close> is allocated.
\<close>

datatype channel_event = MessageReceived int | MessageSent int | ErrorRaised

fun channel_step :: "base_transport \<Rightarrow> store \<Rightarrow> channel_event \<Rightarrow> store" where
  "channel_step tr s (MessageReceived now) = handleMessage tr now s"
| "channel_step tr s (MessageSent now) = incrementSentMessages tr now s"
| "channel_step tr s ErrorRaised = handleError tr s"


section \<open>Example inputs\<close>

text \<open>The tracker configuration and a request, as in \<open>example.ts\<close>.\<close>

definition example_tracker_config :: correlation_config where
  "example_tracker_config =
     \<lparr> defaultTimeout = 30000, maxRetries = 3, cleanupInterval = 60000, enableMetrics = True \<rparr>"

definition ping_request :: mcp_message where
  "ping_request = \<lparr> m_jsonrpc = ''2.0'', m_id = Some (IdNum 1), m_method = Some ''ping'',
     m_params = None, m_result = None, m_error = None \<rparr>"

definition zero_id_request :: mcp_message where
  "zero_id_request = ping_request\<lparr> m_id := Some (IdNum 0) \<rparr>"

definition ping_envelope :: jsval where
  "ping_envelope = JObj [(''jsonrpc'', JStr ''2.0''), (''id'', JNum 7), (''method'', JStr ''ping'')]"

text \<open>An envelope with an id and with both a result and an error.\<close>

definition result_and_error :: jsval where
  "result_and_error =
     JObj [(''jsonrpc'', JStr ''2.0''), (''id'', JNum 1), (''result'', JStr ''ok''),
       (''error'', JObj [(''code'', JNum (- 32000)), (''message'', JStr ''failed'')])]"








text \<open>
  A second rule whose predicate holds once the protocol tag is there, and a translator
  with \<open>addJsonRpcVersion\<close> before it.
\<close>

definition tag_present_rule :: translation_rule where
  "tag_present_rule =
     \<lparr> rule_name = ''markTagged'',
       condition = (\<lambda>message. get_prop message ''jsonrpc'' = JStr ''2.0''),
       rule_transform = (\<lambda>message. Inr (set_prop message ''tagged'' (JBool True))) \<rparr>"

definition example_translator :: message_translator where
  "example_translator =
     \<lparr> rules = [addJsonRpcVersion, tag_present_rule],
       translator_config_of = \<lparr> enableValidation = True, throwOnValidationError = False,
         logTranslations = False \<rparr> \<rparr>"

text \<open>Containers that are up and down, pools over them, and a serializer for one message.\<close>

definition up :: container where
  "up = \<lparr> has_process = True, connected = True, stdin_written = [], sent_count = 0,
     error_count = 0 \<rparr>"

definition down :: container where
  "down = \<lparr> has_process = False, connected = False, stdin_written = [], sent_count = 0,
     error_count = 0 \<rparr>"

definition example_pool_config :: process_pool_config where
  "example_pool_config =
     \<lparr> maxInstances = 4, minInstances = 2, healthCheckInterval = 30000, restartOnFailure = False \<rparr>"



definition stale_pool :: process_pool where
  "stale_pool =
     \<lparr> poolConfig = example_pool_config, instances = [(''instance-0'', down)],
       activeInstances = [''instance-0'', ''instance-1''], roundRobinIndex = 0 \<rparr>"

definition example_stringify :: json_stringify where
  "example_stringify v = (if v = ping_envelope then Inr ''ping-text'' else Inl ''cyclic value'')"


section \<open>The codec: which envelopes are accepted\<close>

lemma validate_iff:
  "validate message \<longleftrightarrow>
     typeof_object message \<and> message \<noteq> JNull \<and> get_prop message ''jsonrpc'' = JStr ''2.0'' \<and>
     (typeof_string (get_prop message ''method'') \<or>
      (get_prop message ''id'' \<noteq> JUndefined \<and>
         (get_prop message ''result'' \<noteq> JUndefined \<or> get_prop message ''error'' \<noteq> JUndefined)))"
  by (auto simp: validate_def isRequest_def isResponse_def isNotification_def)

lemma isValidMCPMessage_validate: "isValidMCPMessage message = validate message"
  unfolding isValidMCPMessage_def validate_iff by blast

lemma jsonrpc_tag_object:
  "get_prop message ''jsonrpc'' = JStr ''2.0'' \<Longrightarrow> typeof_object message \<and> message \<noteq> JNull"
  by (cases message) simp_all

text \<open>
  Claim C1, as amended. \<open>validate\<close> accepts a message exactly when it carries the
  protocol tag \<open>2.0\<close> and is a Request (method a string, id present), a Notification
  (method a string, id absent) or a Response (id present, at least one of result and
  error present). The translator's \<open>isValidMCPMessage\<close> accepts the same messages. A
  message that is not accepted makes \<open>deserialize\<close> fail with the
  \<open>Invalid MCP message format\<close> error.
\<close>

theorem validate_accepts_iff:
  "(validate message \<longleftrightarrow>
      get_prop message ''jsonrpc'' = JStr ''2.0'' \<and>
      (typeof_string (get_prop message ''method'') \<and> present message ''id'' \<or>
       typeof_string (get_prop message ''method'') \<and> \<not> present message ''id'' \<or>
       present message ''id'' \<and> (present message ''result'' \<or> present message ''error''))) \<and>
   isValidMCPMessage message = validate message \<and>
   (\<not> validate message \<and> parse data = Inr message \<longrightarrow>
      deserialize parse data = Inl (DeserializeFailed ''Invalid MCP message format''))"
proof -
  have "validate message \<longleftrightarrow>
      get_prop message ''jsonrpc'' = JStr ''2.0'' \<and>
      (typeof_string (get_prop message ''method'') \<and> present message ''id'' \<or>
       typeof_string (get_prop message ''method'') \<and> \<not> present message ''id'' \<or>
       present message ''id'' \<and> (present message ''result'' \<or> present message ''error''))"
    unfolding validate_iff present_def using jsonrpc_tag_object [of message] by blast
  moreover have "\<not> validate message \<and> parse data = Inr message \<longrightarrow>
      deserialize parse data = Inl (DeserializeFailed ''Invalid MCP message format'')"
    by (simp add: deserialize_def)
  ultimately show ?thesis using isValidMCPMessage_validate [of message] by blast
qed

text \<open>
  An envelope without the protocol tag is refused, and a parser that yields it makes
  \<open>deserialize\<close> fail.
\<close>

theorem validate_accepts_iff_witness:
  "\<not> validate (JObj [(''method'', JStr ''ping'')]) \<and>
   deserialize (\<lambda>s. if s = ''ping-text'' then Inr (JObj [(''method'', JStr ''ping'')])
                     else Inl ''Unexpected token'') ''ping-text''
     = Inl (DeserializeFailed ''Invalid MCP message format'')"
  using validate_accepts_iff [of "JObj [(''method'', JStr ''ping'')]"
     "\<lambda>s. if s = ''ping-text'' then Inr (JObj [(''method'', JStr ''ping'')])
                     else Inl ''Unexpected token''" "''ping-text''"]
  by (simp add: present_def)

text \<open>
  The claim as stated fails: an envelope with an id and with both a result and an error
  is none of the three kinds of the specification, and \<open>validate\<close> accepts it.
\<close>

theorem validate_exactly_one_counterexample:
  "validate result_and_error \<and> \<not> spec_valid result_and_error"
  by (simp add: result_and_error_def validate_def isRequest_def isResponse_def isNotification_def
      spec_valid_def spec_request_def spec_notification_def spec_response_def present_def)

section \<open>The codec: round trip\<close>



section \<open>The correlation tracker\<close>

lemma ok_keys_removeAll: "ok_keys ks \<Longrightarrow> ok_keys (removeAll k ks)"
  by (simp add: ok_keys_def distinct_removeAll list_all_iff)

lemma ok_keys_snoc: "ok_keys ks \<Longrightarrow> k \<notin> set ks \<Longrightarrow> \<not> falsy_id k \<Longrightarrow> ok_keys (ks @ [k])"
  by (simp add: ok_keys_def)

lemma map_of_None_keys: "map_of al k = None \<longleftrightarrow> k \<notin> set (map fst al)"
  by (simp add: map_of_eq_None_iff)

lemma map_of_Some_keys: "map_of al k = Some v \<Longrightarrow> k \<in> fst ` set al"
  by (force dest: map_of_SomeD)

lemma pending_clearTimeout [simp]: "pendingRequests (clearTimeout h t) = pendingRequests t"
  by (simp add: clearTimeout_def)

lemma pending_setTimeout [simp]: "pendingRequests (snd (setTimeout i delay t)) = pendingRequests t"
  by (simp add: setTimeout_def)

lemma pending_settle [simp]: "pendingRequests (settle w out t) = pendingRequests t"
  by (simp add: settle_def)

lemma pending_updateMetrics [simp]: "pendingRequests (updateMetrics t now r e) = pendingRequests t"
  by (simp add: updateMetrics_def Let_def)

lemma pending_cancel_each [simp]: "pendingRequests (cancel_each es t) = pendingRequests t"
  by (induction es t rule: cancel_each.induct) simp_all

lemma config_clearTimeout [simp]: "tracker_config (clearTimeout h t) = tracker_config t"
  by (simp add: clearTimeout_def)

text \<open>
  What each operation does to the ids of the \<open>Map\<close>: it leaves them, removes one, appends
  one that is not falsy and was not there, or removes all.
\<close>

lemma ids_trackRequest:
  "map fst (pendingRequests (snd (trackRequest t now message timeout mr))) =
     (if not_id (m_id message) \<or> the (m_id message) \<in> set (map fst (pendingRequests t))
      then map fst (pendingRequests t)
      else map fst (pendingRequests t) @ [the (m_id message)])"
  by (simp add: trackRequest_def Let_def setTimeout_def update_keys map_of_None_keys)

lemma ids_handleResponse:
  "map fst (pendingRequests (snd (handleResponse t now response))) = map fst (pendingRequests t) \<or>
   (\<exists>i. map fst (pendingRequests (snd (handleResponse t now response))) =
      removeAll i (map fst (pendingRequests t)))"
  by (auto simp: handleResponse_def get_pending_def Let_def delete_keys split: option.splits)

lemma ids_handleTimeout:
  "map fst (pendingRequests (handleTimeout t i)) = map fst (pendingRequests t) \<or>
   map fst (pendingRequests (handleTimeout t i)) = removeAll i (map fst (pendingRequests t))"
  by (auto simp: handleTimeout_def get_pending_def Let_def delete_keys split: option.splits)

lemma ids_timer_fires:
  "map fst (pendingRequests (timer_fires t h)) = map fst (pendingRequests t) \<or>
   (\<exists>i. map fst (pendingRequests (timer_fires t h)) = removeAll i (map fst (pendingRequests t)))"
proof (cases "map_of (timers t) h")
  case None
  then show ?thesis by (simp add: timer_fires_def)
next
  case (Some e)
  obtain i delay where e: "e = (i, delay)" by (cases e)
  from ids_handleTimeout [of "clearTimeout h t" i] Some e show ?thesis
    by (auto simp: timer_fires_def)
qed

lemma ids_retryRequest_begin:
  "map fst (pendingRequests (snd (retryRequest_begin t now message))) = map fst (pendingRequests t) \<or>
   (\<exists>i. map fst (pendingRequests (snd (retryRequest_begin t now message))) =
      removeAll i (map fst (pendingRequests t)))"
  by (auto simp: retryRequest_begin_def get_pending_def Let_def setTimeout_def delete_keys
      split: option.splits)

lemma ids_retryRequest_resume:
  "map fst (pendingRequests (snd (retryRequest_resume t i ref sent))) = map fst (pendingRequests t) \<or>
   map fst (pendingRequests (snd (retryRequest_resume t i ref sent))) =
      removeAll i (map fst (pendingRequests t))"
  by (auto simp: retryRequest_resume_def Let_def delete_keys split: option.splits)

lemma ids_cancelRequest:
  "map fst (pendingRequests (snd (cancelRequest t i))) = map fst (pendingRequests t) \<or>
   map fst (pendingRequests (snd (cancelRequest t i))) = removeAll i (map fst (pendingRequests t))"
  by (auto simp: cancelRequest_def get_pending_def Let_def delete_keys split: option.splits)

lemma ids_cancelAllRequests: "map fst (pendingRequests (snd (cancelAllRequests t))) = []"
  by (simp add: cancelAllRequests_def Let_def)

text \<open>Every operation keeps the invariant.\<close>

lemma inv_trackRequest:
  assumes "tracker_inv t"
  shows "tracker_inv (snd (trackRequest t now message timeout mr))"
proof (cases "not_id (m_id message) \<or> the (m_id message) \<in> set (map fst (pendingRequests t))")
  case True
  with assms show ?thesis by (simp add: tracker_inv_def ids_trackRequest)
next
  case False
  then have f: "\<not> falsy_id (the (m_id message))"
    and n: "the (m_id message) \<notin> set (map fst (pendingRequests t))"
    by (auto simp: not_id_def split: option.splits)
  from assms have "ok_keys (map fst (pendingRequests t) @ [the (m_id message)])"
    unfolding tracker_inv_def using n f by (rule ok_keys_snoc)
  with False show ?thesis
    by (simp add: tracker_inv_def ids_trackRequest)
qed

lemma inv_handleResponse: "tracker_inv t \<Longrightarrow> tracker_inv (snd (handleResponse t now response))"
  using ids_handleResponse [of t now response] by (auto simp: tracker_inv_def ok_keys_removeAll)

lemma inv_timer_fires: "tracker_inv t \<Longrightarrow> tracker_inv (timer_fires t h)"
  using ids_timer_fires [of t h] by (auto simp: tracker_inv_def ok_keys_removeAll)

lemma inv_retryRequest_begin:
  "tracker_inv t \<Longrightarrow> tracker_inv (snd (retryRequest_begin t now message))"
  using ids_retryRequest_begin [of t now message] by (auto simp: tracker_inv_def ok_keys_removeAll)

lemma inv_retryRequest_resume:
  "tracker_inv t \<Longrightarrow> tracker_inv (snd (retryRequest_resume t i ref sent))"
  using ids_retryRequest_resume [of t i ref sent] by (auto simp: tracker_inv_def ok_keys_removeAll)

lemma inv_cancelRequest: "tracker_inv t \<Longrightarrow> tracker_inv (snd (cancelRequest t i))"
  using ids_cancelRequest [of t i] by (auto simp: tracker_inv_def ok_keys_removeAll)

lemma inv_cancelAllRequests: "tracker_inv (snd (cancelAllRequests t))"
  by (simp add: tracker_inv_def ids_cancelAllRequests ok_keys_def)

lemma inv_foldl_cancel:
  "tracker_inv t \<Longrightarrow> tracker_inv (foldl (\<lambda>s i. snd (cancelRequest s i)) t ids)"
  by (induction ids arbitrary: t) (simp_all add: inv_cancelRequest)

lemma inv_cleanup: "tracker_inv t \<Longrightarrow> tracker_inv (cleanupStaleRequests t now)"
  by (simp add: cleanupStaleRequests_def inv_foldl_cancel)

lemma inv_step: "tracker_inv t \<Longrightarrow> tracker_inv (tracker_step t ev)"
  by (cases ev)
     (simp_all add: inv_trackRequest inv_handleResponse inv_timer_fires inv_retryRequest_begin
        inv_retryRequest_resume inv_cancelRequest inv_cancelAllRequests inv_cleanup)

lemma inv_foldl: "tracker_inv t \<Longrightarrow> tracker_inv (foldl tracker_step t evs)"
  by (induction evs arbitrary: t) (simp_all add: inv_step)

lemma inv_new: "tracker_inv (new_tracker cfg)"
  by (simp add: tracker_inv_def new_tracker_def ok_keys_def)

lemma inv_run: "tracker_inv (tracker_run cfg evs)"
  by (simp add: tracker_run_def inv_foldl inv_new)

text \<open>
  From any state, whether reachable or not, an operation that starts with no id pending
  twice ends with no id pending twice.
\<close>

lemma distinct_trackRequest:
  "distinct (pending_ids t) \<Longrightarrow> distinct (pending_ids (snd (trackRequest t now message timeout mr)))"
  by (simp add: pending_ids_def ids_trackRequest)

lemma distinct_handleResponse:
  "distinct (pending_ids t) \<Longrightarrow> distinct (pending_ids (snd (handleResponse t now response)))"
  using ids_handleResponse [of t now response] by (auto simp: pending_ids_def distinct_removeAll)

lemma distinct_timer_fires: "distinct (pending_ids t) \<Longrightarrow> distinct (pending_ids (timer_fires t h))"
  using ids_timer_fires [of t h] by (auto simp: pending_ids_def distinct_removeAll)

lemma distinct_retryRequest_begin:
  "distinct (pending_ids t) \<Longrightarrow> distinct (pending_ids (snd (retryRequest_begin t now message)))"
  using ids_retryRequest_begin [of t now message] by (auto simp: pending_ids_def distinct_removeAll)

lemma distinct_retryRequest_resume:
  "distinct (pending_ids t) \<Longrightarrow> distinct (pending_ids (snd (retryRequest_resume t i ref sent)))"
  using ids_retryRequest_resume [of t i ref sent] by (auto simp: pending_ids_def distinct_removeAll)

lemma distinct_retryRequest:
  "distinct (pending_ids t) \<Longrightarrow> distinct (pending_ids (snd (retryRequest t now message sent)))"
  using distinct_retryRequest_begin [of t now message]
  by (auto simp: retryRequest_def distinct_retryRequest_resume split: prod.splits sum.splits)

lemma distinct_cancelRequest:
  "distinct (pending_ids t) \<Longrightarrow> distinct (pending_ids (snd (cancelRequest t i)))"
  using ids_cancelRequest [of t i] by (auto simp: pending_ids_def distinct_removeAll)

lemma distinct_cancelAllRequests: "distinct (pending_ids (snd (cancelAllRequests t)))"
  by (simp add: pending_ids_def ids_cancelAllRequests)

lemma distinct_foldl_cancel:
  "distinct (pending_ids t) \<Longrightarrow> distinct (pending_ids (foldl (\<lambda>s i. snd (cancelRequest s i)) t ids))"
  by (induction ids arbitrary: t) (simp_all add: distinct_cancelRequest)

lemma distinct_step: "distinct (pending_ids t) \<Longrightarrow> distinct (pending_ids (tracker_step t ev))"
  by (cases ev)
     (simp_all add: distinct_trackRequest distinct_handleResponse distinct_timer_fires
        distinct_retryRequest_begin distinct_retryRequest_resume distinct_cancelRequest
        distinct_cancelAllRequests cleanupStaleRequests_def distinct_foldl_cancel)

text \<open>
  Claim C2. In every state the tracker reaches, no id is pending twice; \<open>trackRequest\<close>
  for a message whose id is pending fails with the already-tracked error and leaves the
  state (the pending map with it) as it was; and every operation, \<open>trackRequest\<close>,
  \<open>handleResponse\<close>, a timeout, either half of \<open>retryRequest\<close> and the whole of it,
  \<open>cancelRequest\<close>, \<open>cancelAllRequests\<close> and the cleanup sweep, keeps the ids of the
  pending entries distinct.
\<close>

theorem at_most_one_pending_per_id:
  "distinct (pending_ids (tracker_run cfg events)) \<and>
   (\<forall>i \<in> set (pending_ids (tracker_run cfg events)).
      m_id message = Some i \<longrightarrow>
      trackRequest (tracker_run cfg events) now message timeout mr =
        (Inl (AlreadyTracked i), tracker_run cfg events)) \<and>
   (distinct (pending_ids t) \<longrightarrow>
      distinct (pending_ids (tracker_step t ev)) \<and>
      distinct (pending_ids (snd (retryRequest t now message sent))))"
proof -
  let ?t = "tracker_run cfg events"
  have inv: "tracker_inv ?t" by (rule inv_run)
  have d: "distinct (pending_ids ?t)"
    using inv by (simp add: tracker_inv_def ok_keys_def pending_ids_def)
  have dup: "trackRequest ?t now message timeout mr = (Inl (AlreadyTracked i), ?t)"
    if "i \<in> set (pending_ids ?t)" "m_id message = Some i" for i
  proof -
    from that(1) inv have "\<not> falsy_id i"
      by (auto simp: tracker_inv_def ok_keys_def pending_ids_def list_all_iff)
    moreover from that(1) have "map_of (pendingRequests ?t) i \<noteq> None"
      by (simp add: map_of_None_keys pending_ids_def)
    ultimately show ?thesis using that(2)
      by (simp add: trackRequest_def not_id_def)
  qed
  from d dup distinct_step [of t ev] distinct_retryRequest [of t now message sent]
  show ?thesis by blast
qed

text \<open>A second \<open>trackRequest\<close> with the id of a pending request.\<close>

theorem at_most_one_pending_per_id_witness:
  "IdNum 1 \<in> set (pending_ids (tracker_run example_tracker_config [TrackRequest 0 ping_request None None])) \<and>
   m_id ping_request = Some (IdNum 1) \<and>
   trackRequest (tracker_run example_tracker_config [TrackRequest 0 ping_request None None])
       5 ping_request None None =
     (Inl (AlreadyTracked (IdNum 1)),
      tracker_run example_tracker_config [TrackRequest 0 ping_request None None]) \<and>
   distinct (pending_ids (new_tracker example_tracker_config)) \<and>
   distinct (pending_ids (tracker_step (new_tracker example_tracker_config)
      (TrackRequest 0 ping_request None None))) \<and>
   distinct (pending_ids (snd (retryRequest (new_tracker example_tracker_config) 5 ping_request None)))"
proof -
  let ?evs = "[TrackRequest 0 ping_request None None]"
  have a: "IdNum 1 \<in> set (pending_ids (tracker_run example_tracker_config ?evs))"
    by (simp add: tracker_run_def new_tracker_def trackRequest_def not_id_def ping_request_def
        pending_ids_def Let_def setTimeout_def)
  have b: "m_id ping_request = Some (IdNum 1)" by (simp add: ping_request_def)
  have c: "distinct (pending_ids (new_tracker example_tracker_config))"
    by (simp add: new_tracker_def pending_ids_def)
  from at_most_one_pending_per_id [of example_tracker_config ?evs ping_request 5 None None
      "new_tracker example_tracker_config" "TrackRequest 0 ping_request None None" None] a b c
  show ?thesis by blast
qed

text \<open>
  Claim C8. For a message whose id is the number 0 or the empty string, \<open>trackRequest\<close>
  fails with the error that the message must have an id and \<open>handleResponse\<close> returns
  false, both leaving the tracker as it was; and such an id is pending in no state the
  tracker reaches.
\<close>

theorem falsy_id_never_correlated:
  assumes "i = IdNum 0 \<or> i = IdStr []" and "m_id message = Some i"
  shows "trackRequest t now message timeout mr = (Inl MissingId, t) \<and>
         handleResponse t now message = (False, t) \<and>
         i \<notin> set (pending_ids (tracker_run cfg events))"
proof -
  from assms(1) have f: "falsy_id i" by auto
  with assms(2) have a: "trackRequest t now message timeout mr = (Inl MissingId, t)"
    by (simp add: trackRequest_def not_id_def)
  from f assms(2) have b: "handleResponse t now message = (False, t)"
    by (simp add: handleResponse_def not_id_def)
  have "tracker_inv (tracker_run cfg events)" by (rule inv_run)
  with f have c: "i \<notin> set (pending_ids (tracker_run cfg events))"
    by (auto simp: tracker_inv_def ok_keys_def pending_ids_def list_all_iff)
  from a b c show ?thesis by blast
qed

theorem falsy_id_never_correlated_witness:
  "m_id zero_id_request = Some (IdNum 0) \<and>
   trackRequest (new_tracker example_tracker_config) 0 zero_id_request None None =
     (Inl MissingId, new_tracker example_tracker_config) \<and>
   handleResponse (new_tracker example_tracker_config) 0 zero_id_request =
     (False, new_tracker example_tracker_config) \<and>
   IdNum 0 \<notin> set (pending_ids (tracker_run example_tracker_config
      [TrackRequest 0 zero_id_request None None]))"
proof -
  have m: "m_id zero_id_request = Some (IdNum 0)"
    by (simp add: zero_id_request_def ping_request_def)
  from falsy_id_never_correlated [of "IdNum 0" zero_id_request
      "new_tracker example_tracker_config" 0 None None example_tracker_config
      "[TrackRequest 0 zero_id_request None None]"] m
  show ?thesis by simp
qed

section \<open>The router\<close>










section \<open>The subprocess pool\<close>

lemma container_send_fail_stdin:
  "container_send stringify c message = (Some e, handled, c') \<Longrightarrow> stdin_written c' = stdin_written c"
  by (auto simp: container_send_def split: if_splits sum.splits)

lemma written_update:
  "map_of al k = Some c \<Longrightarrow> stdin_written v = stdin_written c \<Longrightarrow>
   map (\<lambda>(i, c). (i, stdin_written c)) (AList.update k v al) = map (\<lambda>(i, c). (i, stdin_written c)) al"
  by (induction al) (auto split: if_splits)


lemma written_index [simp]: "written (p\<lparr> roundRobinIndex := k \<rparr>) = written p"
  by (simp add: written_def)

lemma handleInstanceFailure_begin_instances:
  "map_of (instances (handleInstanceFailure_begin p i)) =
     (case map_of (instances p) i of
        None \<Rightarrow> map_of (instances p)
      | Some c \<Rightarrow> (map_of (instances p))(i \<mapsto> container_close c))"
  by (simp add: handleInstanceFailure_begin_def Let_def update_conv' split: option.splits)

lemma handleInstanceFailure_begin_written [simp]:
  "written (handleInstanceFailure_begin p i) = written p"
  by (auto simp: handleInstanceFailure_begin_def Let_def written_def container_close_def
      split: option.splits intro!: written_update)

lemma handleInstanceFailure_begin_index [simp]:
  "roundRobinIndex (handleInstanceFailure_begin p i) = roundRobinIndex p"
  by (simp add: handleInstanceFailure_begin_def Let_def split: option.splits)

lemma begin_other:
  "k \<noteq> i \<Longrightarrow> map_of (instances (handleInstanceFailure_begin p i)) k = map_of (instances p) k"
  by (simp add: handleInstanceFailure_begin_instances split: option.splits)

text \<open>A failed send to an instance writes nothing and leaves the other instances alone.\<close>

lemma instance_send_fail:
  assumes "map_of (instances p) i = Some c" and "fst (container_send stringify c message) = Some e"
  shows "fst (instance_send stringify p i c message) = Some e"
    and "written (snd (instance_send stringify p i c message)) = written p"
    and "roundRobinIndex (snd (instance_send stringify p i c message)) = roundRobinIndex p"
    and "k \<noteq> i \<Longrightarrow>
           map_of (instances (snd (instance_send stringify p i c message))) k = map_of (instances p) k"
proof -
  obtain handled c' where cs: "container_send stringify c message = (Some e, handled, c')"
    using assms(2) by (cases "container_send stringify c message") auto
  have st: "stdin_written c' = stdin_written c" using cs by (rule container_send_fail_stdin)
  let ?p1 = "p\<lparr> instances := AList.update i c' (instances p) \<rparr>"
  have w1: "written ?p1 = written p"
    using assms(1) st by (simp add: written_def written_update)
  show "fst (instance_send stringify p i c message) = Some e"
    by (simp add: instance_send_def cs Let_def)
  show "written (snd (instance_send stringify p i c message)) = written p"
    using w1 by (simp add: instance_send_def cs Let_def)
  show "roundRobinIndex (snd (instance_send stringify p i c message)) = roundRobinIndex p"
    by (simp add: instance_send_def cs Let_def)
  show "k \<noteq> i \<Longrightarrow>
          map_of (instances (snd (instance_send stringify p i c message))) k = map_of (instances p) k"
    by (simp add: instance_send_def cs Let_def handleInstanceFailure_begin_instances update_conv'
        split: option.splits)
qed

text \<open>\<open>send\<close> after the send to the first chosen instance has failed.\<close>

lemma pool_send_first_fails:
  assumes "activeInstances p \<noteq> []"
    and "map_of (instances p)
           (activeInstances p ! (roundRobinIndex p mod length (activeInstances p))) = Some c1"
    and "fst (container_send stringify c1 message) = Some e"
  shows "pool_send stringify p message =
     (let ids = activeInstances p;
          i = ids ! (roundRobinIndex p mod length ids);
          n = ids ! (Suc (roundRobinIndex p) mod length ids);
          p3 = handleInstanceFailure_begin
                 (snd (instance_send stringify
                         (p\<lparr> roundRobinIndex := Suc (roundRobinIndex p) \<rparr>) i c1 message)) i
      in if length ids > 1
         then (case map_of (instances p3) n of
                 None \<Rightarrow> (Inr (), p3)
               | Some nextInstance \<Rightarrow>
                   (case instance_send stringify p3 n nextInstance message of
                      (None, p4) \<Rightarrow> (Inr (), p4)
                    | (Some e2, p4) \<Rightarrow> (Inl e2, p4)))
         else (Inl e, p3))"
proof -
  let ?p1 = "p\<lparr> roundRobinIndex := Suc (roundRobinIndex p) \<rparr>"
  let ?i = "activeInstances p ! (roundRobinIndex p mod length (activeInstances p))"
  have l1: "map_of (instances ?p1) ?i = Some c1" using assms by simp
  note s = instance_send_fail [OF l1 assms(3)]
  obtain p2 where sent1: "instance_send stringify ?p1 ?i c1 message = (Some e, p2)"
    using s(1) by (cases "instance_send stringify ?p1 ?i c1 message") auto
  have rr: "roundRobinIndex p2 = Suc (roundRobinIndex p)"
    using s(3) sent1 by simp
  show ?thesis
    using assms(1) l1 by (simp add: pool_send_def Let_def sent1 rr cong: option.case_cong)
qed


lemma container_send_down:
  "\<not> isConnected c \<Longrightarrow> container_send stringify c message = (Some ContainerNotRunning, False, c)"
  by (auto simp: container_send_def isConnected_def)



lemma example_sends:
  "fst (container_send example_stringify down ping_envelope) = Some ContainerNotRunning"
  "fst (container_send example_stringify up ping_envelope) = None"
  by (simp_all add: container_send_def down_def up_def example_stringify_def serialize_def)


text \<open>
  Claim C9. When the send to the instance chosen first fails, the captured list of
  active ids has more than one element and the id that follows in it is not in the
  instance map, \<open>send\<close> succeeds and nothing has been written to any instance.
\<close>

theorem pool_send_silent_drop:
  assumes "length (activeInstances p) > 1"
    and "map_of (instances p)
           (activeInstances p ! (roundRobinIndex p mod length (activeInstances p))) = Some c"
    and "fst (container_send stringify c message) = Some e"
    and "map_of (instances p)
           (activeInstances p ! (Suc (roundRobinIndex p) mod length (activeInstances p))) = None"
  shows "fst (pool_send stringify p message) = Inr () \<and>
         written (snd (pool_send stringify p message)) = written p"
proof -
  let ?ids = "activeInstances p"
  let ?i = "?ids ! (roundRobinIndex p mod length ?ids)"
  let ?n = "?ids ! (Suc (roundRobinIndex p) mod length ?ids)"
  let ?p1 = "p\<lparr> roundRobinIndex := Suc (roundRobinIndex p) \<rparr>"
  let ?p2 = "snd (instance_send stringify ?p1 ?i c message)"
  let ?p3 = "handleInstanceFailure_begin ?p2 ?i"
  have ne: "?n \<noteq> ?i" using assms(2,4) by auto
  have l1: "map_of (instances ?p1) ?i = Some c" using assms(2) by simp
  note s = instance_send_fail [OF l1 assms(3)]
  have n3: "map_of (instances ?p3) ?n = None"
    using begin_other [OF ne, of ?p2] s(4) [OF ne] assms(4) by simp
  have nonempty: "activeInstances p \<noteq> []" using assms(1) by auto
  from pool_send_first_fails [OF nonempty assms(2,3)] assms(1) n3
  have res: "pool_send stringify p message = (Inr (), ?p3)"
    by (simp add: Let_def)
  have "written ?p3 = written p" using s(2) by simp
  with res show ?thesis by simp
qed

theorem pool_send_silent_drop_witness:
  "length (activeInstances stale_pool) > 1 \<and>
   map_of (instances stale_pool) ''instance-1'' = None \<and>
   fst (pool_send example_stringify stale_pool ping_envelope) = Inr () \<and>
   written (snd (pool_send example_stringify stale_pool ping_envelope)) = [(''instance-0'', [])]"
proof -
  have h: "length (activeInstances stale_pool) > 1"
    "map_of (instances stale_pool)
       (activeInstances stale_pool !
          (roundRobinIndex stale_pool mod length (activeInstances stale_pool))) = Some down"
    "map_of (instances stale_pool)
       (activeInstances stale_pool !
          (Suc (roundRobinIndex stale_pool) mod length (activeInstances stale_pool))) = None"
    "map_of (instances stale_pool) ''instance-1'' = None"
    by (simp_all add: stale_pool_def)
  have w: "written stale_pool = [(''instance-0'', [])]"
    by (simp add: written_def stale_pool_def down_def)
  from pool_send_silent_drop [OF h(1) h(2) example_sends(1) h(3)] h(1) h(4) w
  show ?thesis by simp
qed

section \<open>The reconnection engine\<close>









section \<open>The translator\<close>

lemma apply_rules_filter:
  "apply_rules cfg (filter (\<lambda>rule. condition rule original) rs) acc =
     translate_spec cfg original rs acc"
  by (induction rs arbitrary: acc) (auto split: sum.splits)

text \<open>
  Claim C7. \<open>translate\<close> decides whether a rule applies by its predicate on the
  original message, never on an intermediate result, and applies the applicable rules
  in registration order, each to the result accumulated so far: it computes what the
  rule-by-rule reading \<open>translate_spec\<close> computes, failures included.
\<close>

theorem translate_original_applicability:
  "translate tr message = translate_spec (translator_config_of tr) message (rules tr) message"
proof (cases "filter (\<lambda>rule. condition rule message) (rules tr) = []")
  case True
  have "translate_spec (translator_config_of tr) message (rules tr) message =
        apply_rules (translator_config_of tr) [] message"
    using apply_rules_filter [of "translator_config_of tr" message "rules tr" message] True by simp
  with True show ?thesis by (simp add: translate_def)
next
  case False
  then show ?thesis by (simp add: translate_def apply_rules_filter)
qed

text \<open>
  The protocol tag is added to \<open>{method: "ping"}\<close>; the second rule is not applied,
  though its predicate holds of the result of the first.
\<close>

theorem translate_original_applicability_witness:
  "translate example_translator (JObj [(''method'', JStr ''ping'')]) =
     Inr (JObj [(''method'', JStr ''ping''), (''jsonrpc'', JStr ''2.0'')]) \<and>
   condition tag_present_rule (JObj [(''method'', JStr ''ping''), (''jsonrpc'', JStr ''2.0'')])"
  using translate_original_applicability [of example_translator "JObj [(''method'', JStr ''ping'')]"]
  by (simp add: example_translator_def addJsonRpcVersion_def tag_present_rule_def apply_rule_def
      set_prop_def)

section \<open>Channel metrics\<close>





lemma channel_step_allocated: "allocated tr s \<Longrightarrow> allocated tr (channel_step tr s ev)"
  by (cases ev)
     (auto simp: allocated_def handleMessage_def incrementSentMessages_def handleError_def
        update_metrics_def new_Date_def Let_def)




text \<open>
  The copy is one level deep: the returned record refers to the same \<open>Date\<close> as the
  channel's own, so \<open>setTime\<close> on that \<open>Date\<close>, which assigns to no field of the returned
  record, shows in both.
\<close>

lemma lastActivity_date_shared:
  assumes "allocated tr s" and "getMetrics tr s = (r, s1)"
  shows "lastActivity (metrics_at s1 r) = lastActivity (metrics_at s1 (metrics_ref tr)) \<and>
         snd (snd (snd (snd (read_metrics (setTime (lastActivity (metrics_at s1 r)) v s1)
           (metrics_ref tr))))) = v"
  using assms
  by (auto simp: getMetrics_def new_metrics_def allocated_def read_metrics_def setTime_def Let_def)

end
